theory Spec2Isabelle
  imports Main
begin

section \<open>Python values, dictionaries and exceptions\<close>

text \<open>
  The session layer of Navigator (\<^verbatim>\<open>navigator/auth/sessions/storages/abstract.py\<close>)
  stores arbitrary Python values. The fragment of values that its code inspects
  (truthiness, comparison with \<^verbatim>\<open>None\<close>, subtraction from an integer) is covered by
  \<^verbatim>\<open>None\<close>, booleans, integers and strings.
\<close>

datatype pyval = PNone | PBool bool | PInt int | PStr string

text \<open>Python truthiness, as used by \<^verbatim>\<open>if x\<close> and \<^verbatim>\<open>not x\<close>.\<close>

fun truthy :: "pyval \<Rightarrow> bool" where
  "truthy PNone = False"
| "truthy (PBool b) = b"
| "truthy (PInt i) = (i \<noteq> 0)"
| "truthy (PStr s) = (s \<noteq> [])"

datatype exn =
    KeyError string
  | TypeError
  | RuntimeError string
  | HTTPException int
  | OtherException string

text \<open>
  A \<^verbatim>\<open>dict\<close> with string keys keeps insertion order: an association list.
  Assigning to a key that is present replaces its value in place, assigning to a new key
  appends it.
\<close>

type_synonym pydict = "(string \<times> pyval) list"

fun dict_setitem :: "pydict \<Rightarrow> string \<Rightarrow> pyval \<Rightarrow> pydict" where
  "dict_setitem [] k v = [(k, v)]"
| "dict_setitem ((k', v') # d) k v =
     (if k' = k then (k, v) # d else (k', v') # dict_setitem d k v)"

definition dict_contains :: "pydict \<Rightarrow> string \<Rightarrow> bool" where
  "dict_contains d k = (map_of d k \<noteq> None)"

text \<open>\<^verbatim>\<open>d[k]\<close> raises \<^verbatim>\<open>KeyError\<close> on a missing key.\<close>

definition dict_getitem :: "pydict \<Rightarrow> string \<Rightarrow> exn + pyval" where
  "dict_getitem d k = (case map_of d k of None \<Rightarrow> Inl (KeyError k) | Some v \<Rightarrow> Inr v)"

text \<open>\<^verbatim>\<open>del d[k]\<close> raises \<^verbatim>\<open>KeyError\<close> on a missing key and leaves the dict as it was.\<close>

definition dict_delitem :: "pydict \<Rightarrow> string \<Rightarrow> exn + pydict" where
  "dict_delitem d k =
     (if dict_contains d k then Inr (filter (\<lambda>p. fst p \<noteq> k) d) else Inl (KeyError k))"

text \<open>\<^verbatim>\<open>d.get(k, None)\<close>.\<close>

definition dict_get :: "pydict \<Rightarrow> string \<Rightarrow> pyval" where
  "dict_get d k = (case map_of d k of None \<Rightarrow> PNone | Some v \<Rightarrow> v)"

text \<open>\<^verbatim>\<open>d.update(other)\<close>: every pair of \<^verbatim>\<open>other\<close> is assigned in turn.\<close>

fun dict_update :: "pydict \<Rightarrow> pydict \<Rightarrow> pydict" where
  "dict_update d [] = d"
| "dict_update d ((k, v) # other) = dict_update (dict_setitem d k v) other"

text \<open>
  \<^verbatim>\<open>now - created\<close> with an integer on the left: defined for integers and booleans
  (\<^verbatim>\<open>True\<close> is 1), a \<^verbatim>\<open>TypeError\<close> for \<^verbatim>\<open>None\<close> and strings.
\<close>

fun int_sub :: "int \<Rightarrow> pyval \<Rightarrow> exn + int" where
  "int_sub n (PInt i) = Inr (n - i)"
| "int_sub n (PBool b) = Inr (n - (if b then 1 else 0))"
| "int_sub n PNone = Inl TypeError"
| "int_sub n (PStr s) = Inl TypeError"

section \<open>SessionData\<close>

text \<open>
  The fields \<^verbatim>\<open>_changed\<close>, \<^verbatim>\<open>_data\<close>, \<^verbatim>\<open>_db\<close>, \<^verbatim>\<open>_identity\<close>, \<^verbatim>\<open>_new\<close>, \<^verbatim>\<open>_max_age\<close>
  and \<^verbatim>\<open>_created\<close> of the class \<^verbatim>\<open>SessionData\<close>.
\<close>

record 'db SessionData =
  s_changed :: bool
  s_data :: pydict
  s_db :: 'db
  s_identity :: pyval
  s_new :: bool
  s_max_age :: "int option"
  s_created :: pyval

text \<open>
  \<^verbatim>\<open>SessionData.__init__(self, db, *, data={}, new=False, identity=None, max_age=None)\<close>.
  The constant \<^verbatim>\<open>SESSION_KEY\<close> of \<^verbatim>\<open>navigator.conf\<close>, the token \<^verbatim>\<open>uuid.uuid4().hex\<close> and
  the clock reading \<^verbatim>\<open>int(time.time())\<close> are parameters. The argument \<^verbatim>\<open>data\<close> is
  \<^verbatim>\<open>None\<close> (\<open>None\<close>) or a mapping (\<open>Some d\<close>); when omitted it is the empty mapping.
  The constructor raises \<^verbatim>\<open>TypeError\<close> when the \<^verbatim>\<open>created\<close> entry of \<^verbatim>\<open>data\<close> is a
  non-empty string; the comparison of the age with \<^verbatim>\<open>max_age\<close> only sets a local
  variable that is never read.
\<close>

definition SessionData_init ::
  "string \<Rightarrow> string \<Rightarrow> int \<Rightarrow> 'db \<Rightarrow> pydict option \<Rightarrow> bool \<Rightarrow> pyval \<Rightarrow> int option
     \<Rightarrow> exn + 'db SessionData" where
  "SessionData_init SESSION_KEY uuid4_hex time_now db data new identity max_age =
     (let data_truthy = (data \<noteq> None \<and> data \<noteq> Some []);
          identity0 = (case data of
                         None \<Rightarrow> identity
                       | Some d \<Rightarrow> if data_truthy then dict_get d SESSION_KEY else identity);
          identity1 = (if \<not> truthy identity0 then PStr uuid4_hex else identity0);
          new1 = (if data \<noteq> Some [] then new else True);
          max_age1 = (case max_age of
                        None \<Rightarrow> None
                      | Some m \<Rightarrow> if m \<noteq> 0 then Some m else None);
          created = (case data of
                       None \<Rightarrow> PNone
                     | Some d \<Rightarrow> if data_truthy then dict_get d ''created'' else PNone);
          now = time_now
      in case (if truthy created then int_sub now created else Inr now) of
           Inl err \<Rightarrow> Inl err
         | Inr age \<Rightarrow>
             (let session_data = (case max_age of
                                    None \<Rightarrow> False
                                  | Some m \<Rightarrow> age > m);
                  created1 = (if new1 \<or> created = PNone then PInt now else created);
                  data1 = (case data of None \<Rightarrow> [] | Some d \<Rightarrow> dict_update [] d)
              in Inr \<lparr> s_changed = False, s_data = data1, s_db = db,
                        s_identity = identity1, s_new = new1, s_max_age = max_age1,
                        s_created = created1 \<rparr>))"

subsection \<open>Properties\<close>

definition new :: "'db SessionData \<Rightarrow> bool" where
  "new s = s_new s"

definition identity :: "'db SessionData \<Rightarrow> pyval" where
  "identity s = s_identity s"

definition created :: "'db SessionData \<Rightarrow> pyval" where
  "created s = s_created s"

definition empty :: "'db SessionData \<Rightarrow> bool" where
  "empty s = (s_data s = [])"

definition max_age :: "'db SessionData \<Rightarrow> int option" where
  "max_age s = s_max_age s"

definition max_age_setter :: "'db SessionData \<Rightarrow> int option \<Rightarrow> 'db SessionData" where
  "max_age_setter s v = s\<lparr> s_max_age := v \<rparr>"

definition is_changed :: "'db SessionData \<Rightarrow> bool" where
  "is_changed s = s_changed s"

subsection \<open>Methods\<close>

definition changed :: "'db SessionData \<Rightarrow> 'db SessionData" where
  "changed s = s\<lparr> s_changed := True \<rparr>"

definition session_data :: "'db SessionData \<Rightarrow> pydict" where
  "session_data s = s_data s"

definition invalidate :: "'db SessionData \<Rightarrow> 'db SessionData" where
  "invalidate s = s\<lparr> s_changed := True, s_data := [] \<rparr>"

definition len :: "'db SessionData \<Rightarrow> nat" where
  "len s = length (s_data s)"

definition iter :: "'db SessionData \<Rightarrow> string list" where
  "iter s = map fst (s_data s)"

definition contains :: "'db SessionData \<Rightarrow> string \<Rightarrow> bool" where
  "contains s key = dict_contains (s_data s) key"

definition getitem :: "'db SessionData \<Rightarrow> string \<Rightarrow> exn + pyval" where
  "getitem s key = dict_getitem (s_data s) key"

definition setitem :: "'db SessionData \<Rightarrow> string \<Rightarrow> pyval \<Rightarrow> 'db SessionData" where
  "setitem s key v = s\<lparr> s_data := dict_setitem (s_data s) key v, s_changed := True \<rparr>"

text \<open>
  \<^verbatim>\<open>__delitem__\<close>: the deletion comes first, so a missing key raises before
  \<^verbatim>\<open>_changed\<close> is assigned.
\<close>

definition delitem :: "'db SessionData \<Rightarrow> string \<Rightarrow> exn + 'db SessionData" where
  "delitem s key =
     (case dict_delitem (s_data s) key of
        Inl err \<Rightarrow> Inl err
      | Inr d \<Rightarrow> Inr (s\<lparr> s_data := d, s_changed := True \<rparr>))"

subsection \<open>Sequences of operations on one session object\<close>

text \<open>
  One call on a session object. A call that raises leaves the object as it was (the one
  raising assignment, in \<^verbatim>\<open>__delitem__\<close>, comes before any other), and the caller may
  go on using the object, so every call yields the object's next state together with the
  value returned or the exception raised.
\<close>

datatype op =
    OpGet string
  | OpSet string pyval
  | OpDelete string
  | OpContains string
  | OpLen
  | OpIter
  | OpInvalidate
  | OpEmpty
  | OpChanged
  | OpSetMaxAge "int option"

datatype retval = RNone | RVal pyval | RBool bool | RLen nat | RKeys "string list"

fun apply_op :: "'db SessionData \<Rightarrow> op \<Rightarrow> 'db SessionData \<times> (exn + retval)" where
  "apply_op s (OpGet k) =
     (case getitem s k of Inl err \<Rightarrow> (s, Inl err) | Inr v \<Rightarrow> (s, Inr (RVal v)))"
| "apply_op s (OpSet k v) = (setitem s k v, Inr RNone)"
| "apply_op s (OpDelete k) =
     (case delitem s k of Inl err \<Rightarrow> (s, Inl err) | Inr s' \<Rightarrow> (s', Inr RNone))"
| "apply_op s (OpContains k) = (s, Inr (RBool (contains s k)))"
| "apply_op s OpLen = (s, Inr (RLen (len s)))"
| "apply_op s OpIter = (s, Inr (RKeys (iter s)))"
| "apply_op s OpInvalidate = (invalidate s, Inr RNone)"
| "apply_op s OpEmpty = (s, Inr (RBool (empty s)))"
| "apply_op s OpChanged = (changed s, Inr RNone)"
| "apply_op s (OpSetMaxAge v) = (max_age_setter s v, Inr RNone)"

fun run_ops :: "'db SessionData \<Rightarrow> op list \<Rightarrow> 'db SessionData" where
  "run_ops s [] = s"
| "run_ops s (x # xs) = run_ops (fst (apply_op s x)) xs"

section \<open>AbstractStorage\<close>

text \<open>
  \<^verbatim>\<open>AbstractStorage.__init__(self, max_age=None, secure=None)\<close>; the constant
  \<^verbatim>\<open>SESSION_TIMEOUT\<close> of \<^verbatim>\<open>navigator.conf\<close> is a parameter.
\<close>

record AbstractStorage =
  storage_max_age :: int

definition AbstractStorage_init :: "int \<Rightarrow> int option \<Rightarrow> AbstractStorage" where
  "AbstractStorage_init SESSION_TIMEOUT max_age_arg =
     (case max_age_arg of
        None \<Rightarrow> \<lparr> storage_max_age = SESSION_TIMEOUT \<rparr>
      | Some m \<Rightarrow> if \<not> (m \<noteq> 0) then \<lparr> storage_max_age = SESSION_TIMEOUT \<rparr>
                  else \<lparr> storage_max_age = m \<rparr>)"

subsection \<open>The request context\<close>

text \<open>
  A request is a mutable mapping from string keys to objects; the objects this code
  stores in it or looks for are the storage, a session object and \<^verbatim>\<open>None\<close>.
\<close>

datatype ('st, 'db) ctxval = CtxStorage 'st | CtxSession "'db SessionData" | CtxValue pyval

type_synonym ('st, 'db) request = "string \<rightharpoonup> ('st, 'db) ctxval"

text \<open>\<^verbatim>\<open>del request[key]\<close> on a request that keeps its state in a dict.\<close>

definition request_delitem ::
  "string \<Rightarrow> ('st, 'db) request \<Rightarrow> exn + ('st, 'db) request" where
  "request_delitem key request =
     (case request key of None \<Rightarrow> Inl (KeyError key) | Some v \<Rightarrow> Inr (request(key := None)))"

subsection \<open>forgot\<close>

text \<open>
  \<^verbatim>\<open>AbstractStorage.forgot(self, request)\<close>. The abstract methods \<^verbatim>\<open>get_session\<close> and
  \<^verbatim>\<open>invalidate\<close> of the storage and the deletion of a request slot are parameters; each
  may raise and may change the request. The result carries the value returned, the
  request as left behind and the errors printed.
\<close>

definition forgot ::
  "string \<Rightarrow> string
   \<Rightarrow> ('st \<Rightarrow> ('st, 'db) request \<Rightarrow> exn + ('db SessionData \<times> ('st, 'db) request))
   \<Rightarrow> ('st \<Rightarrow> ('st, 'db) request \<Rightarrow> 'db SessionData \<Rightarrow> exn + ('st, 'db) request)
   \<Rightarrow> (string \<Rightarrow> ('st, 'db) request \<Rightarrow> exn + ('st, 'db) request)
   \<Rightarrow> 'st \<Rightarrow> ('st, 'db) request
   \<Rightarrow> exn + (bool \<times> ('st, 'db) request \<times> exn list)" where
  "forgot SESSION_KEY SESSION_OBJECT get_session storage_invalidate del_item storage request =
     (case get_session storage request of
        Inl err \<Rightarrow> Inl err
      | Inr (session, request1) \<Rightarrow>
          (case storage_invalidate storage request1 session of
             Inl err \<Rightarrow> Inl err
           | Inr request2 \<Rightarrow>
               (let request3 = request2(''session'' \<mapsto> CtxValue PNone) in
                case del_item SESSION_KEY request3 of
                  Inl err \<Rightarrow> Inr (True, request3, [err])
                | Inr request4 \<Rightarrow>
                    (case del_item SESSION_OBJECT request4 of
                       Inl err \<Rightarrow> Inr (True, request4, [err])
                     | Inr request5 \<Rightarrow> Inr (True, request5, [])))))"

section \<open>The session middleware\<close>

text \<open>
  The inner function \<^verbatim>\<open>middleware(request, handler)\<close> of \<^verbatim>\<open>session_middleware\<close>.
  The handler and the abstract method \<^verbatim>\<open>save_session\<close> act on the world outside the
  middleware (the session backend, the transport), so both take the state \<open>w\<close> of that
  world and return it as they left it, together with their result or the exception they
  raised; the middleware passes the world from one call to the next, and whatever a call
  did to the world is there only if the call was made. The handler also returns the
  request as it left it (a handler that changes the session object leaves the changed
  object in the request), and \<^verbatim>\<open>save_session\<close> may change the request and the response.
  Further parameters: the constants \<^verbatim>\<open>SESSION_STORAGE\<close> and \<^verbatim>\<open>SESSION_OBJECT\<close> of
  \<^verbatim>\<open>navigator.conf\<close>; the test
  \<^verbatim>\<open>isinstance(response, (web.StreamResponse, web.HTTPException))\<close> and the attribute
  \<^verbatim>\<open>response.prepared\<close>. An exception of the handler leaves the middleware as it is,
  whether re-raised by the \<^verbatim>\<open>except\<close> clause or not caught at all.
\<close>

definition middleware ::
  "string \<Rightarrow> string \<Rightarrow> ('resp \<Rightarrow> bool) \<Rightarrow> ('resp \<Rightarrow> bool)
   \<Rightarrow> ('st \<Rightarrow> ('st, 'db) request \<Rightarrow> 'resp \<Rightarrow> 'db SessionData \<Rightarrow> 'w
        \<Rightarrow> (exn + (('st, 'db) request \<times> 'resp)) \<times> 'w)
   \<Rightarrow> 'st \<Rightarrow> ('st, 'db) request
   \<Rightarrow> (('st, 'db) request \<Rightarrow> 'w \<Rightarrow> (exn + ('resp \<times> ('st, 'db) request)) \<times> 'w)
   \<Rightarrow> 'w \<Rightarrow> (exn + ('resp \<times> ('st, 'db) request)) \<times> 'w" where
  "middleware SESSION_STORAGE SESSION_OBJECT isinstance_response prepared save_session
       storage request handler w =
     (let request1 = request(SESSION_STORAGE \<mapsto> CtxStorage storage) in
      case handler request1 w of
        (Inl exc, w1) \<Rightarrow> (Inl exc, w1)
      | (Inr (response, request2), w1) \<Rightarrow>
          if \<not> isinstance_response response then
            (Inr (response, request2), w1)
          else if prepared response then
            (Inl (RuntimeError ''We Cannot save session data into on prepared responses''), w1)
          else
            (case request2 SESSION_OBJECT of
               Some (CtxSession session) \<Rightarrow>
                 if is_changed session then
                   (case save_session storage request2 response session w1 of
                      (Inl err, w2) \<Rightarrow> (Inl err, w2)
                    | (Inr (request3, response3), w2) \<Rightarrow> (Inr (response3, request3), w2))
                 else
                   (Inr (response, request2), w1)
             | _ \<Rightarrow> (Inr (response, request2), w1)))"

text \<open>
  \<^verbatim>\<open>session_middleware(app, storage)\<close>: the factory refuses an object that is not an
  \<^verbatim>\<open>AbstractStorage\<close> and otherwise returns the middleware for that storage.
\<close>

definition session_middleware ::
  "string \<Rightarrow> string \<Rightarrow> ('resp \<Rightarrow> bool) \<Rightarrow> ('resp \<Rightarrow> bool)
   \<Rightarrow> ('st \<Rightarrow> ('st, 'db) request \<Rightarrow> 'resp \<Rightarrow> 'db SessionData \<Rightarrow> 'w
        \<Rightarrow> (exn + (('st, 'db) request \<times> 'resp)) \<times> 'w)
   \<Rightarrow> ('st \<Rightarrow> bool) \<Rightarrow> 'st
   \<Rightarrow> exn + (('st, 'db) request
              \<Rightarrow> (('st, 'db) request \<Rightarrow> 'w \<Rightarrow> (exn + ('resp \<times> ('st, 'db) request)) \<times> 'w)
              \<Rightarrow> 'w \<Rightarrow> (exn + ('resp \<times> ('st, 'db) request)) \<times> 'w)" where
  "session_middleware SESSION_STORAGE SESSION_OBJECT isinstance_response prepared save_session
       isinstance_storage storage =
     (if \<not> isinstance_storage storage then
        Inl (RuntimeError ''Expected an AbstractStorage'')
      else
        Inr (middleware SESSION_STORAGE SESSION_OBJECT isinstance_response prepared
               save_session storage))"

subsection \<open>A log of the calls made\<close>

text \<open>
  To count the calls of \<^verbatim>\<open>save_session\<close> and to order them against the handler, both
  are wrapped so that each application appends an entry to a log kept in the world. The
  wrappers change nothing else, and nothing but an application of the wrapped function
  writes an entry.
\<close>

datatype event = HandlerRan | SaveSessionCalled

definition logging_handler ::
  "(('st, 'db) request \<Rightarrow> 'w \<Rightarrow> (exn + ('resp \<times> ('st, 'db) request)) \<times> 'w)
   \<Rightarrow> ('st, 'db) request \<Rightarrow> event list \<times> 'w
   \<Rightarrow> (exn + ('resp \<times> ('st, 'db) request)) \<times> (event list \<times> 'w)" where
  "logging_handler handler request lw =
     (case handler request (snd lw) of
        (result, w') \<Rightarrow> (result, (fst lw @ [HandlerRan], w')))"

definition logging_save_session ::
  "('st \<Rightarrow> ('st, 'db) request \<Rightarrow> 'resp \<Rightarrow> 'db SessionData \<Rightarrow> 'w
      \<Rightarrow> (exn + (('st, 'db) request \<times> 'resp)) \<times> 'w)
   \<Rightarrow> 'st \<Rightarrow> ('st, 'db) request \<Rightarrow> 'resp \<Rightarrow> 'db SessionData \<Rightarrow> event list \<times> 'w
   \<Rightarrow> (exn + (('st, 'db) request \<times> 'resp)) \<times> (event list \<times> 'w)" where
  "logging_save_session save_session storage request response session lw =
     (case save_session storage request response session (snd lw) of
        (result, w') \<Rightarrow> (result, (fst lw @ [SaveSessionCalled], w')))"

subsection \<open>Results of a handler\<close>

text \<open>
  The classes of the web toolkit that the result of a handler can belong to.
  \<^verbatim>\<open>web.StreamResponse\<close>, the class named in the middleware's test, is the toolkit's
  streaming response; \<^verbatim>\<open>web.Response\<close> and \<^verbatim>\<open>web.WebSocketResponse\<close> (the websocket
  upgrade) are subclasses of it; \<^verbatim>\<open>web.HTTPException\<close> is named in the test itself. A
  raw value (a string, a dict, \<^verbatim>\<open>None\<close>) is an instance of none of them.
\<close>

datatype web_class =
    RawValue
  | StreamResponse
  | Response
  | WebSocketResponse
  | HTTPExceptionObject

record web_result =
  result_class :: web_class
  result_prepared :: bool

text \<open>\<^verbatim>\<open>isinstance(response, (web.StreamResponse, web.HTTPException))\<close>.\<close>

definition is_StreamResponse_or_HTTPException :: "web_result \<Rightarrow> bool" where
  "is_StreamResponse_or_HTTPException response =
     (case result_class response of
        RawValue \<Rightarrow> False
      | StreamResponse \<Rightarrow> True
      | Response \<Rightarrow> True
      | WebSocketResponse \<Rightarrow> True
      | HTTPExceptionObject \<Rightarrow> True)"

text \<open>
  The condition of the lazy write: the request context holds a session object (an instance
  of \<^verbatim>\<open>SessionData\<close>) under \<^verbatim>\<open>SESSION_OBJECT\<close> whose \<^verbatim>\<open>is_changed\<close> is true.
\<close>

definition holds_changed_session :: "string \<Rightarrow> ('st, 'db) request \<Rightarrow> bool" where
  "holds_changed_session SESSION_OBJECT request =
     (case request SESSION_OBJECT of
        Some (CtxSession session) \<Rightarrow> is_changed session
      | _ \<Rightarrow> False)"

subsection \<open>Sample objects\<close>

text \<open>A session as a storage would load it, and a handler that stores a value in it.\<close>

definition sample_session :: "unit SessionData" where
  "sample_session =
     \<lparr> s_changed = False, s_data = [(''user'', PStr ''ann'')], s_db = (),
       s_identity = PStr ''9f1c2b3a4d5e6f708192a3b4c5d6e7f8'', s_new = False,
       s_max_age = None, s_created = PInt 1700000000 \<rparr>"

definition sample_handler ::
  "web_result \<Rightarrow> (unit, unit) request \<Rightarrow> nat
   \<Rightarrow> (exn + (web_result \<times> (unit, unit) request)) \<times> nat" where
  "sample_handler response request w =
     (Inr (response,
           request(''nav_session_object'' \<mapsto>
                     CtxSession (setitem sample_session ''cart'' (PInt 3)))), w)"

text \<open>A storage whose world is the number of sessions written to its backend.\<close>

definition sample_save_session ::
  "unit \<Rightarrow> (unit, unit) request \<Rightarrow> web_result \<Rightarrow> unit SessionData \<Rightarrow> nat
   \<Rightarrow> (exn + ((unit, unit) request \<times> web_result)) \<times> nat" where
  "sample_save_session storage request response session w = (Inr (request, response), Suc w)"

section \<open>Basic facts\<close>

lemmas property_defs = new_def identity_def created_def empty_def max_age_def is_changed_def

lemma apply_op_identity: "s_identity (fst (apply_op s x)) = s_identity s"
  by (cases x)
     (simp_all add: getitem_def setitem_def delitem_def invalidate_def changed_def
        max_age_setter_def split: sum.splits)

lemma apply_op_changed: "s_changed s \<Longrightarrow> s_changed (fst (apply_op s x))"
  by (cases x)
     (simp_all add: getitem_def setitem_def delitem_def invalidate_def changed_def
        max_age_setter_def split: sum.splits)

lemma run_ops_append: "run_ops s (p @ q) = run_ops (run_ops s p) q"
  by (induction p arbitrary: s) simp_all

lemma run_ops_identity: "s_identity (run_ops s xs) = s_identity s"
  by (induction xs arbitrary: s) (simp_all add: apply_op_identity)

lemma run_ops_changed: "s_changed s \<Longrightarrow> s_changed (run_ops s xs)"
  by (induction xs arbitrary: s) (simp_all add: apply_op_changed)

text \<open>What the constructor stores, whenever it returns.\<close>

lemma SessionData_init_identity:
  "SessionData_init K u now db data new_arg ident ma = Inr s \<Longrightarrow>
   s_identity s =
     (let i0 = (case data of
                  None \<Rightarrow> ident
                | Some [] \<Rightarrow> ident
                | Some (p # d) \<Rightarrow> dict_get (p # d) K)
      in if truthy i0 then i0 else PStr u)"
  by (auto simp: SessionData_init_def Let_def
           split: option.splits sum.splits if_splits list.splits)

lemma SessionData_init_new:
  "SessionData_init K u now db data new_arg ident ma = Inr s \<Longrightarrow>
   s_new s = (if data = Some [] then True else new_arg)"
  by (auto simp: SessionData_init_def Let_def split: option.splits sum.splits if_splits)

lemma SessionData_init_max_age:
  "SessionData_init K u now db data new_arg ident ma = Inr s \<Longrightarrow>
   s_max_age s = (case ma of None \<Rightarrow> None | Some m \<Rightarrow> if m = 0 then None else Some m)"
  by (auto simp: SessionData_init_def Let_def split: option.splits sum.splits if_splits)

text \<open>
  The constructor returns on every input but one kind: a \<^verbatim>\<open>created\<close> entry of
  \<^verbatim>\<open>data\<close> that is a non-empty string.
\<close>

lemma SessionData_init_returns:
  "(\<exists>s. SessionData_init K u now db data new_arg ident ma = Inr s) \<longleftrightarrow>
   \<not> (\<exists>d c. data = Some d \<and> map_of d ''created'' = Some (PStr c) \<and> c \<noteq> [])"
proof (cases data)
  case None
  then show ?thesis by (simp add: SessionData_init_def Let_def)
next
  case (Some d)
  then show ?thesis
    by (cases "dict_get d ''created''")
       (auto simp: SessionData_init_def Let_def dict_get_def
             split: option.splits sum.splits if_splits)
qed

section \<open>Invalidation\<close>

text \<open>
  Claim C6. For every SessionData in every state, after \<^verbatim>\<open>invalidate()\<close> the attributes
  mapping is empty (\<^verbatim>\<open>empty\<close> is true) and \<^verbatim>\<open>is_changed\<close> is true, while the identity and
  the creation time are exactly what they were before the call.
\<close>

theorem invalidate_clears_and_marks:
  "empty (invalidate s) \<and> is_changed (invalidate s)
   \<and> identity (invalidate s) = identity s \<and> created (invalidate s) = created s"
  by (simp add: invalidate_def property_defs)

section \<open>Mapping operations\<close>




section \<open>Invariants of a session object\<close>

text \<open>
  Claim C7. For every SessionData and every sequence of its operations (get, set, delete,
  containsKey, length, iterate, invalidate, and also isEmpty, \<^verbatim>\<open>changed\<close> and the
  \<^verbatim>\<open>max_age\<close> setter), whether they return or raise: the identity is the one the object
  had at the start, and once \<^verbatim>\<open>is_changed\<close> is true (after any prefix \<open>p\<close> of the
  sequence) it is still true after every continuation \<open>q\<close>.
\<close>

theorem identity_fixed_changed_monotonic:
  "identity (run_ops s (p @ q)) = identity s
   \<and> (is_changed (run_ops s p) \<longrightarrow> is_changed (run_ops s (p @ q)))"
  by (simp add: identity_def is_changed_def run_ops_append run_ops_identity run_ops_changed)

theorem identity_fixed_changed_monotonic_witness:
  "\<not> is_changed sample_session
   \<and> is_changed (run_ops sample_session [OpSet ''cart'' (PInt 3)])
   \<and> is_changed (run_ops sample_session
        ([OpSet ''cart'' (PInt 3)] @ [OpGet ''none'', OpDelete ''cart'', OpLen, OpIter]))
   \<and> identity (run_ops sample_session
        ([OpSet ''cart'' (PInt 3)] @ [OpGet ''none'', OpDelete ''cart'', OpLen, OpIter]))
       = PStr ''9f1c2b3a4d5e6f708192a3b4c5d6e7f8''"
proof -
  have start: "\<not> is_changed sample_session"
    by (simp add: is_changed_def sample_session_def)
  have marked: "is_changed (run_ops sample_session [OpSet ''cart'' (PInt 3)])"
    by (simp add: is_changed_def setitem_def)
  have ident: "identity sample_session = PStr ''9f1c2b3a4d5e6f708192a3b4c5d6e7f8''"
    by (simp add: identity_def sample_session_def)
  show ?thesis
    using start marked ident
      identity_fixed_changed_monotonic [of sample_session "[OpSet ''cart'' (PInt 3)]"
        "[OpGet ''none'', OpDelete ''cart'', OpLen, OpIter]"]
    by simp
qed

section \<open>Construction\<close>

text \<open>
  Claim C2 as stated fails: with a non-empty data mapping that has no identity key, an
  explicit identity argument is not used. Here \<^verbatim>\<open>SESSION_KEY\<close> is \<^verbatim>\<open>id\<close>, the data
  holds only \<^verbatim>\<open>user\<close> and the explicit identity is \<^verbatim>\<open>abc\<close>; the object gets the
  generated token.
\<close>

theorem explicit_identity_ignored_with_data:
  "SessionData_init ''id'' ''9f1c2b3a4d5e6f708192a3b4c5d6e7f8'' 1700000000 ()
     (Some [(''user'', PStr ''ann'')]) False (PStr ''abc'') None
   = Inr \<lparr> s_changed = False, s_data = [(''user'', PStr ''ann'')], s_db = (),
           s_identity = PStr ''9f1c2b3a4d5e6f708192a3b4c5d6e7f8'', s_new = False,
           s_max_age = None, s_created = PInt 1700000000 \<rparr>"
  by (simp add: SessionData_init_def dict_get_def Let_def)

text \<open>
  Claim C2, amended. When constructing a SessionData, the identity is chosen as follows.
  If the data mapping contains an identity key with a truthy value, the identity equals
  that value. If the data mapping is non-empty and has no identity key, a fresh identity
  is generated and the explicit identity argument is not consulted. If the data mapping
  is empty or \<^verbatim>\<open>None\<close>, the explicit identity argument becomes the identity when it is
  truthy, and otherwise a fresh identity is generated.
\<close>

theorem identity_precedence:
  assumes "SessionData_init K u now db data new_arg ident ma = Inr s"
  shows "(\<forall>d v. data = Some d \<and> map_of d K = Some v \<and> truthy v \<longrightarrow> identity s = v)
       \<and> (\<forall>d. data = Some d \<and> d \<noteq> [] \<and> map_of d K = None \<longrightarrow> identity s = PStr u)
       \<and> ((data = None \<or> data = Some []) \<and> truthy ident \<longrightarrow> identity s = ident)
       \<and> ((data = None \<or> data = Some []) \<and> \<not> truthy ident \<longrightarrow> identity s = PStr u)"
  using SessionData_init_identity [OF assms]
  by (auto simp: identity_def dict_get_def Let_def
           split: list.splits option.splits if_splits)

theorem identity_precedence_witness:
  "SessionData_init ''id'' ''9f1c2b3a4d5e6f708192a3b4c5d6e7f8'' 1700000000 ()
     (Some [(''id'', PStr ''c0ffee''), (''user'', PStr ''ann'')]) False (PStr ''abc'') None
   = Inr \<lparr> s_changed = False,
           s_data = [(''id'', PStr ''c0ffee''), (''user'', PStr ''ann'')], s_db = (),
           s_identity = PStr ''c0ffee'', s_new = False,
           s_max_age = None, s_created = PInt 1700000000 \<rparr>
   \<and> identity \<lparr> s_changed = False,
           s_data = [(''id'', PStr ''c0ffee''), (''user'', PStr ''ann'')], s_db = (),
           s_identity = PStr ''c0ffee'', s_new = False,
           s_max_age = None, s_created = PInt 1700000000 \<rparr> = PStr ''c0ffee''"
proof -
  have built:
    "SessionData_init ''id'' ''9f1c2b3a4d5e6f708192a3b4c5d6e7f8'' 1700000000 ()
       (Some [(''id'', PStr ''c0ffee''), (''user'', PStr ''ann'')]) False (PStr ''abc'') None
     = Inr \<lparr> s_changed = False,
             s_data = [(''id'', PStr ''c0ffee''), (''user'', PStr ''ann'')], s_db = (),
             s_identity = PStr ''c0ffee'', s_new = False,
             s_max_age = None, s_created = PInt 1700000000 \<rparr>"
    by (simp add: SessionData_init_def dict_get_def Let_def)
  show ?thesis
    using built identity_precedence [OF built] by simp
qed

text \<open>
  Claim C9. When constructing a SessionData, a supplied identity that is falsy is replaced
  by a freshly generated one: if the data mapping's identity value is falsy (an empty
  string or \<^verbatim>\<open>None\<close> among others), or the data is empty or absent and the explicit
  identity argument is falsy, the resulting identity is the newly generated token.
\<close>

theorem falsy_identity_replaced:
  assumes "SessionData_init K u now db data new_arg ident ma = Inr s"
      and "(\<exists>d v. data = Some d \<and> map_of d K = Some v \<and> \<not> truthy v)
           \<or> ((data = None \<or> data = Some []) \<and> \<not> truthy ident)"
  shows "identity s = PStr u"
  using SessionData_init_identity [OF assms(1)] assms(2)
  by (auto simp: identity_def dict_get_def Let_def
           split: list.splits option.splits if_splits)

theorem falsy_identity_replaced_witness:
  "SessionData_init ''id'' ''9f1c2b3a4d5e6f708192a3b4c5d6e7f8'' 1700000000 ()
     (Some [(''id'', PStr '''')]) False (PStr ''abc'') None
   = Inr \<lparr> s_changed = False, s_data = [(''id'', PStr '''')], s_db = (),
           s_identity = PStr ''9f1c2b3a4d5e6f708192a3b4c5d6e7f8'', s_new = False,
           s_max_age = None, s_created = PInt 1700000000 \<rparr>
   \<and> identity \<lparr> s_changed = False, s_data = [(''id'', PStr '''')], s_db = (),
           s_identity = PStr ''9f1c2b3a4d5e6f708192a3b4c5d6e7f8'', s_new = False,
           s_max_age = None, s_created = PInt 1700000000 \<rparr>
       = PStr ''9f1c2b3a4d5e6f708192a3b4c5d6e7f8''"
proof -
  have built:
    "SessionData_init ''id'' ''9f1c2b3a4d5e6f708192a3b4c5d6e7f8'' 1700000000 ()
       (Some [(''id'', PStr '''')]) False (PStr ''abc'') None
     = Inr \<lparr> s_changed = False, s_data = [(''id'', PStr '''')], s_db = (),
             s_identity = PStr ''9f1c2b3a4d5e6f708192a3b4c5d6e7f8'', s_new = False,
             s_max_age = None, s_created = PInt 1700000000 \<rparr>"
    by (simp add: SessionData_init_def dict_get_def Let_def)
  have falsy:
    "(\<exists>d v. Some [(''id'', PStr '''')] = Some d \<and> map_of d ''id'' = Some v \<and> \<not> truthy v)
     \<or> ((Some [(''id'', PStr '''')] = None \<or> Some [(''id'', PStr '''')] = Some [])
         \<and> \<not> truthy (PStr ''abc''))"
    by simp
  show ?thesis
    using built falsy_identity_replaced [OF built falsy] by simp
qed

text \<open>
  Claim C4 as stated fails: a SessionData constructed with \<^verbatim>\<open>data=None\<close>, that is
  with no data mapping, and the default \<^verbatim>\<open>new=False\<close> is not new.
\<close>

theorem not_new_with_data_None:
  "SessionData_init ''id'' ''9f1c2b3a4d5e6f708192a3b4c5d6e7f8'' 1700000000 ()
     None False PNone None
   = Inr \<lparr> s_changed = False, s_data = [], s_db = (),
           s_identity = PStr ''9f1c2b3a4d5e6f708192a3b4c5d6e7f8'', s_new = False,
           s_max_age = None, s_created = PInt 1700000000 \<rparr>"
  by (simp add: SessionData_init_def Let_def)

text \<open>
  Claim C4, amended. For every SessionData constructed with the data argument omitted or
  equal to the empty mapping, the \<^verbatim>\<open>new\<close> flag is true whatever the \<^verbatim>\<open>new\<close>
  argument; constructed with \<^verbatim>\<open>data=None\<close>, the flag equals the \<^verbatim>\<open>new\<close> argument.
\<close>

theorem new_without_data:
  assumes "SessionData_init K u now db data new_arg ident ma = Inr s"
  shows "(data = Some [] \<longrightarrow> new s) \<and> (data = None \<longrightarrow> new s = new_arg)"
  using SessionData_init_new [OF assms] by (auto simp: new_def)

theorem new_without_data_witness:
  "SessionData_init ''id'' ''9f1c2b3a4d5e6f708192a3b4c5d6e7f8'' 1700000000 ()
     (Some []) False PNone None
   = Inr \<lparr> s_changed = False, s_data = [], s_db = (),
           s_identity = PStr ''9f1c2b3a4d5e6f708192a3b4c5d6e7f8'', s_new = True,
           s_max_age = None, s_created = PInt 1700000000 \<rparr>
   \<and> new \<lparr> s_changed = False, s_data = [], s_db = (),
           s_identity = PStr ''9f1c2b3a4d5e6f708192a3b4c5d6e7f8'', s_new = True,
           s_max_age = None, s_created = PInt 1700000000 \<rparr>"
proof -
  have built:
    "SessionData_init ''id'' ''9f1c2b3a4d5e6f708192a3b4c5d6e7f8'' 1700000000 ()
       (Some []) False PNone None
     = Inr \<lparr> s_changed = False, s_data = [], s_db = (),
             s_identity = PStr ''9f1c2b3a4d5e6f708192a3b4c5d6e7f8'', s_new = True,
             s_max_age = None, s_created = PInt 1700000000 \<rparr>"
    by (simp add: SessionData_init_def Let_def)
  show ?thesis
    using built new_without_data [OF built] by simp
qed

text \<open>
  Claim C10. A max-age of zero is treated as no max-age at all: a SessionData constructed
  with \<^verbatim>\<open>max_age=0\<close> stores \<^verbatim>\<open>None\<close> as its \<^verbatim>\<open>max_age\<close>, and an AbstractStorage
  constructed with \<^verbatim>\<open>max_age=0\<close> falls back to \<^verbatim>\<open>SESSION_TIMEOUT\<close> instead of keeping
  zero.
\<close>

theorem zero_max_age_is_none:
  "(SessionData_init K u now db data new_arg ident (Some 0) = Inr s \<longrightarrow> max_age s = None)
   \<and> storage_max_age (AbstractStorage_init SESSION_TIMEOUT (Some 0)) = SESSION_TIMEOUT"
  using SessionData_init_max_age [of K u now db data new_arg ident "Some 0" s]
  by (auto simp: max_age_def AbstractStorage_init_def)

theorem zero_max_age_is_none_witness:
  "SessionData_init ''id'' ''9f1c2b3a4d5e6f708192a3b4c5d6e7f8'' 1700000000 ()
     (Some [(''user'', PStr ''ann''), (''created'', PInt 1600000000)]) False PNone (Some 0)
   = Inr \<lparr> s_changed = False,
           s_data = [(''user'', PStr ''ann''), (''created'', PInt 1600000000)], s_db = (),
           s_identity = PStr ''9f1c2b3a4d5e6f708192a3b4c5d6e7f8'', s_new = False,
           s_max_age = None, s_created = PInt 1600000000 \<rparr>
   \<and> max_age \<lparr> s_changed = False,
           s_data = [(''user'', PStr ''ann''), (''created'', PInt 1600000000)], s_db = (),
           s_identity = PStr ''9f1c2b3a4d5e6f708192a3b4c5d6e7f8'', s_new = False,
           s_max_age = None, s_created = PInt 1600000000 \<rparr> = None
   \<and> storage_max_age (AbstractStorage_init 1800 (Some 0)) = 1800"
proof -
  have built:
    "SessionData_init ''id'' ''9f1c2b3a4d5e6f708192a3b4c5d6e7f8'' 1700000000 ()
       (Some [(''user'', PStr ''ann''), (''created'', PInt 1600000000)]) False PNone (Some 0)
     = Inr \<lparr> s_changed = False,
             s_data = [(''user'', PStr ''ann''), (''created'', PInt 1600000000)], s_db = (),
             s_identity = PStr ''9f1c2b3a4d5e6f708192a3b4c5d6e7f8'', s_new = False,
             s_max_age = None, s_created = PInt 1600000000 \<rparr>"
    by (simp add: SessionData_init_def dict_get_def Let_def)
  show ?thesis
    using built
      zero_max_age_is_none [of "''id''" "''9f1c2b3a4d5e6f708192a3b4c5d6e7f8''" 1700000000 "()"
        "Some [(''user'', PStr ''ann''), (''created'', PInt 1600000000)]" False PNone _ 1800]
    by simp
qed

section \<open>The middleware contract\<close>

text \<open>What the middleware does with a result that fails the test of line 223.\<close>

lemma middleware_non_response:
  assumes "handler (request(SESSION_STORAGE \<mapsto> CtxStorage storage)) w
             = (Inr (response, request2), w1)"
      and "\<not> isinstance_response response"
  shows "middleware SESSION_STORAGE SESSION_OBJECT isinstance_response prepared
           save_session storage request handler w = (Inr (response, request2), w1)"
  using assms by (simp add: middleware_def)

text \<open>
  Claim C1. For every request whose handler returns a standard response object that is not
  yet prepared: the middleware calls the storage's \<^verbatim>\<open>save_session\<close> exactly once if the
  request context holds a SessionData whose \<^verbatim>\<open>is_changed\<close> is true, and not at all if no
  session object is attached or the attached session is unchanged; when it is called, the
  call comes after the handler has returned and before the middleware returns the
  response. In the first case the middleware's outcome is the outcome of
  \<^verbatim>\<open>save_session(request, response, session)\<close> applied to the world, the request and the
  response that the handler left (its exception, or the response it leaves); in the
  second the outcome is the handler's, and the world is as the handler left it. The log
  of calls holds the handler once and then \<^verbatim>\<open>save_session\<close> once, or the handler only.
\<close>

theorem save_session_once_iff_changed:
  assumes "handler (request(SESSION_STORAGE \<mapsto> CtxStorage storage)) w
             = (Inr (response, request2), w1)"
      and "isinstance_response response"
      and "\<not> prepared response"
  shows "(\<forall>session. request2 SESSION_OBJECT = Some (CtxSession session) \<and> is_changed session
            \<longrightarrow> middleware SESSION_STORAGE SESSION_OBJECT isinstance_response prepared
                   save_session storage request handler w
                 = (case save_session storage request2 response session w1 of
                      (Inl err, w2) \<Rightarrow> (Inl err, w2)
                    | (Inr (request3, response3), w2) \<Rightarrow> (Inr (response3, request3), w2)))
       \<and> (\<not> holds_changed_session SESSION_OBJECT request2
            \<longrightarrow> middleware SESSION_STORAGE SESSION_OBJECT isinstance_response prepared
                   save_session storage request handler w
                 = (Inr (response, request2), w1))
       \<and> fst (snd (middleware SESSION_STORAGE SESSION_OBJECT isinstance_response prepared
                      (logging_save_session save_session) storage request
                      (logging_handler handler) ([], w)))
           = (if holds_changed_session SESSION_OBJECT request2
              then [HandlerRan, SaveSessionCalled] else [HandlerRan])
       \<and> count_list
            (fst (snd (middleware SESSION_STORAGE SESSION_OBJECT isinstance_response prepared
                         (logging_save_session save_session) storage request
                         (logging_handler handler) ([], w))))
            SaveSessionCalled
           = (if holds_changed_session SESSION_OBJECT request2 then 1 else 0)"
proof -
  have logged:
    "logging_handler handler (request(SESSION_STORAGE \<mapsto> CtxStorage storage)) ([], w)
       = (Inr (response, request2), ([HandlerRan], w1))"
    using assms(1) by (simp add: logging_handler_def)
  have direct:
    "\<forall>session. request2 SESSION_OBJECT = Some (CtxSession session) \<and> is_changed session
       \<longrightarrow> middleware SESSION_STORAGE SESSION_OBJECT isinstance_response prepared
              save_session storage request handler w
            = (case save_session storage request2 response session w1 of
                 (Inl err, w2) \<Rightarrow> (Inl err, w2)
               | (Inr (request3, response3), w2) \<Rightarrow> (Inr (response3, request3), w2))"
    using assms by (simp add: middleware_def)
  have lazy:
    "\<not> holds_changed_session SESSION_OBJECT request2
       \<longrightarrow> middleware SESSION_STORAGE SESSION_OBJECT isinstance_response prepared
              save_session storage request handler w
            = (Inr (response, request2), w1)"
    using assms
    by (auto simp: middleware_def holds_changed_session_def
             split: option.splits ctxval.splits)
  have log:
    "fst (snd (middleware SESSION_STORAGE SESSION_OBJECT isinstance_response prepared
                 (logging_save_session save_session) storage request
                 (logging_handler handler) ([], w)))
       = (if holds_changed_session SESSION_OBJECT request2
          then [HandlerRan, SaveSessionCalled] else [HandlerRan])"
    using logged assms(2,3)
    by (auto simp: middleware_def holds_changed_session_def logging_save_session_def
             split: option.splits ctxval.splits prod.splits sum.splits)
  show ?thesis
    using direct lazy log by simp
qed

theorem save_session_once_iff_changed_witness:
  "sample_handler \<lparr> result_class = Response, result_prepared = False \<rparr>
     (Map.empty(''nav_session_storage'' \<mapsto> CtxStorage ())) 0
     = (Inr (\<lparr> result_class = Response, result_prepared = False \<rparr>,
             [''nav_session_storage'' \<mapsto> CtxStorage (),
              ''nav_session_object'' \<mapsto>
                CtxSession (setitem sample_session ''cart'' (PInt 3))]), 0)
   \<and> is_StreamResponse_or_HTTPException \<lparr> result_class = Response, result_prepared = False \<rparr>
   \<and> \<not> result_prepared \<lparr> result_class = Response, result_prepared = False \<rparr>
   \<and> holds_changed_session ''nav_session_object''
        [''nav_session_storage'' \<mapsto> CtxStorage (),
         ''nav_session_object'' \<mapsto> CtxSession (setitem sample_session ''cart'' (PInt 3))]
   \<and> middleware ''nav_session_storage'' ''nav_session_object''
        is_StreamResponse_or_HTTPException result_prepared sample_save_session () Map.empty
        (sample_handler \<lparr> result_class = Response, result_prepared = False \<rparr>) 0
     = (Inr (\<lparr> result_class = Response, result_prepared = False \<rparr>,
             [''nav_session_storage'' \<mapsto> CtxStorage (),
              ''nav_session_object'' \<mapsto>
                CtxSession (setitem sample_session ''cart'' (PInt 3))]), 1)
   \<and> fst (snd (middleware ''nav_session_storage'' ''nav_session_object''
                  is_StreamResponse_or_HTTPException result_prepared
                  (logging_save_session sample_save_session) () Map.empty
                  (logging_handler
                     (sample_handler \<lparr> result_class = Response, result_prepared = False \<rparr>))
                  ([], 0)))
     = [HandlerRan, SaveSessionCalled]"
proof -
  have returned:
    "sample_handler \<lparr> result_class = Response, result_prepared = False \<rparr>
       (Map.empty(''nav_session_storage'' \<mapsto> CtxStorage ())) 0
       = (Inr (\<lparr> result_class = Response, result_prepared = False \<rparr>,
               [''nav_session_storage'' \<mapsto> CtxStorage (),
                ''nav_session_object'' \<mapsto>
                  CtxSession (setitem sample_session ''cart'' (PInt 3))]), 0)"
    by (simp add: sample_handler_def)
  have standard:
    "is_StreamResponse_or_HTTPException \<lparr> result_class = Response, result_prepared = False \<rparr>"
    by (simp add: is_StreamResponse_or_HTTPException_def)
  have unprepared: "\<not> result_prepared \<lparr> result_class = Response, result_prepared = False \<rparr>"
    by simp
  have dirty:
    "holds_changed_session ''nav_session_object''
       [''nav_session_storage'' \<mapsto> CtxStorage (),
        ''nav_session_object'' \<mapsto> CtxSession (setitem sample_session ''cart'' (PInt 3))]"
    by (simp add: holds_changed_session_def is_changed_def setitem_def)
  have changed_session: "is_changed (setitem sample_session ''cart'' (PInt 3))"
    by (simp add: is_changed_def setitem_def)
  show ?thesis
    using returned standard dirty changed_session
      save_session_once_iff_changed
        [where handler = "sample_handler \<lparr> result_class = Response, result_prepared = False \<rparr>"
           and request = Map.empty and w = 0
           and SESSION_STORAGE = "''nav_session_storage''" and storage = "()"
           and isinstance_response = is_StreamResponse_or_HTTPException
           and prepared = result_prepared
           and SESSION_OBJECT = "''nav_session_object''"
           and save_session = sample_save_session,
         OF returned standard unprepared]
    by (simp add: sample_save_session_def)
qed

text \<open>
  Claim C5 says that a handler result that is not a standard response object, such as a raw
  value, a websocket upgrade or a streaming response, is returned unchanged, with no look
  at the session and no call of \<^verbatim>\<open>save_session\<close>. The code does so for a raw value
  only (lemma \<open>middleware_non_response\<close>). A streaming response is an instance of the
  class that the test of line 223 names, and a websocket upgrade of a subclass, so neither
  takes the early return that the comment there reserves for them: once prepared, as both
  are when a handler returns them, the middleware raises \<^verbatim>\<open>RuntimeError\<close> in place of
  returning the result; not yet prepared, the session is read and a changed session is
  written to the storage (here the world counts one write).
\<close>

theorem streaming_response_not_returned:
  "middleware ''nav_session_storage'' ''nav_session_object''
     is_StreamResponse_or_HTTPException result_prepared sample_save_session () Map.empty
     (sample_handler \<lparr> result_class = StreamResponse, result_prepared = True \<rparr>) 0
   = (Inl (RuntimeError ''We Cannot save session data into on prepared responses''), 0)
   \<and> middleware ''nav_session_storage'' ''nav_session_object''
       is_StreamResponse_or_HTTPException result_prepared sample_save_session () Map.empty
       (sample_handler \<lparr> result_class = WebSocketResponse, result_prepared = True \<rparr>) 0
     = (Inl (RuntimeError ''We Cannot save session data into on prepared responses''), 0)
   \<and> middleware ''nav_session_storage'' ''nav_session_object''
       is_StreamResponse_or_HTTPException result_prepared sample_save_session () Map.empty
       (sample_handler \<lparr> result_class = StreamResponse, result_prepared = False \<rparr>) 0
     = (Inr (\<lparr> result_class = StreamResponse, result_prepared = False \<rparr>,
             [''nav_session_storage'' \<mapsto> CtxStorage (),
              ''nav_session_object'' \<mapsto>
                CtxSession (setitem sample_session ''cart'' (PInt 3))]), 1)"
  by (simp add: middleware_def sample_handler_def sample_save_session_def
        is_StreamResponse_or_HTTPException_def is_changed_def setitem_def)

section \<open>Forgetting a session\<close>

text \<open>
  Claim C8. For every request on which \<^verbatim>\<open>get_session\<close> and \<^verbatim>\<open>invalidate\<close> succeed,
  \<^verbatim>\<open>forgot\<close> returns true, whatever the deletion of the session-identity and
  session-object slots from the request context does: an error raised there is swallowed
  and never reaches the caller.
\<close>

theorem forgot_returns_True:
  assumes "get_session storage request = Inr (session, request1)"
      and "storage_invalidate storage request1 session = Inr request2"
  shows "map_sum id fst (forgot SESSION_KEY SESSION_OBJECT get_session storage_invalidate
                           del_item storage request) = Inr True"
  using assms by (simp add: forgot_def Let_def split: sum.splits)

theorem forgot_returns_True_witness:
  "map_sum id fst
     (forgot ''id'' ''nav_session_object''
        (\<lambda>st rq. Inr (sample_session, rq)) (\<lambda>st rq se. Inr rq)
        (\<lambda>key rq. Inl (OtherException ''cannot delete'')) ()
        [''nav_session_object'' \<mapsto> CtxSession sample_session]) = Inr True
   \<and> forgot ''id'' ''nav_session_object''
        (\<lambda>st rq. Inr (sample_session, rq)) (\<lambda>st rq se. Inr rq) request_delitem ()
        [''nav_session_object'' \<mapsto> CtxSession sample_session]
     = Inr (True,
            [''nav_session_object'' \<mapsto> CtxSession sample_session,
             ''session'' \<mapsto> CtxValue PNone],
            [KeyError ''id''])"
proof -
  have loaded:
    "(\<lambda>st rq. Inr (sample_session, rq)) () [''nav_session_object'' \<mapsto> CtxSession sample_session]
       = (Inr (sample_session, [''nav_session_object'' \<mapsto> CtxSession sample_session])
            :: exn + (unit SessionData \<times> (unit, unit) request))"
    by simp
  have dropped:
    "(\<lambda>st rq se. Inr rq) () [''nav_session_object'' \<mapsto> CtxSession sample_session]
         sample_session
       = (Inr [''nav_session_object'' \<mapsto> CtxSession sample_session]
            :: exn + (unit, unit) request)"
    by simp
  have real:
    "forgot ''id'' ''nav_session_object''
        (\<lambda>st rq. Inr (sample_session, rq)) (\<lambda>st rq se. Inr rq) request_delitem ()
        [''nav_session_object'' \<mapsto> CtxSession sample_session]
     = Inr (True,
            [''nav_session_object'' \<mapsto> CtxSession sample_session,
             ''session'' \<mapsto> CtxValue PNone],
            [KeyError ''id''])"
    by (simp add: forgot_def request_delitem_def Let_def)
  show ?thesis
    using real
      forgot_returns_True
        [where get_session = "\<lambda>st rq. Inr (sample_session, rq)"
           and storage_invalidate = "\<lambda>st rq se. Inr rq" and storage = "()"
           and request = "[''nav_session_object'' \<mapsto> CtxSession sample_session]"
           and SESSION_KEY = "''id''" and SESSION_OBJECT = "''nav_session_object''"
           and del_item = "\<lambda>key rq. Inl (OtherException ''cannot delete'')",
         OF loaded dropped]
    by simp
qed

end
